theory Spec2Isabelle
  imports Main
begin

section \<open>Values: JSON, Python exceptions, HTTP responses\<close>

text \<open>
  A JSON value as \<open>request.get_json()\<close> hands it to the handlers, and as \<open>jsonify\<close>
  sends it back. A Python dict is an association list in insertion order; Python's
  \<open>None\<close> is \<open>JNull\<close>. JSON numbers with a fraction are not part of the model.
\<close>

datatype json =
    JNull
  | JBool bool
  | JInt int
  | JStr string
  | JList "json list"
  | JObj "(string \<times> json) list"

text \<open>The exceptions the handlers can meet. \<open>abort(code)\<close> raises \<open>HTTPException code\<close>.\<close>

datatype exn =
    HTTPException nat
  | AttributeError
  | IndexError
  | TypeError
  | ValueError
  | InvalidRequestError
  | MultipleResultsFound
  | DataError
  | ProgrammingError

text \<open>A response is the status code and the JSON body.\<close>

type_synonym response = "nat \<times> json"

text \<open>Sequencing of a computation that may raise: the first exception ends it.\<close>

definition bnd :: "exn + 'a \<Rightarrow> ('a \<Rightarrow> exn + 'b) \<Rightarrow> exn + 'b" where
  "bnd m f = (case m of Inl e \<Rightarrow> Inl e | Inr x \<Rightarrow> f x)"

text \<open>
  \<open>d.get(key, default)\<close>: defined on dicts only, any other value has no attribute
  \<open>get\<close>. When a JSON object repeats a key, the parser keeps the last value.
\<close>

fun dict_get :: "json \<Rightarrow> string \<Rightarrow> json \<Rightarrow> exn + json" where
  "dict_get (JObj kvs) k d = Inr (case map_of (rev kvs) k of None \<Rightarrow> d | Some v \<Rightarrow> v)"
| "dict_get _ k d = Inl AttributeError"

text \<open>\<open>d.update(other)\<close>: a key already present keeps its place and takes the new value.\<close>

fun dict_set :: "(string \<times> json) list \<Rightarrow> string \<Rightarrow> json \<Rightarrow> (string \<times> json) list" where
  "dict_set [] k v = [(k, v)]"
| "dict_set ((k', v') # kvs) k v = (if k' = k then (k', v) # kvs else (k', v') # dict_set kvs k v)"

fun dict_update :: "(string \<times> json) list \<Rightarrow> (string \<times> json) list \<Rightarrow> (string \<times> json) list" where
  "dict_update d [] = d"
| "dict_update d ((k, v) # kvs) = dict_update (dict_set d k v) kvs"

text \<open>Truth value of a Python object, as \<open>if x:\<close> tests it.\<close>

fun py_bool :: "json \<Rightarrow> bool" where
  "py_bool JNull = False"
| "py_bool (JBool b) = b"
| "py_bool (JInt n) = (n \<noteq> 0)"
| "py_bool (JStr s) = (s \<noteq> [])"
| "py_bool (JList xs) = (xs \<noteq> [])"
| "py_bool (JObj kvs) = (kvs \<noteq> [])"

text \<open>
  \<open>xs[start:stop]\<close> with Python's slice rules: a negative bound counts from the end,
  every bound is clamped into the list, and an empty range gives the empty list.
\<close>

definition py_slice :: "'a list \<Rightarrow> int \<Rightarrow> int \<Rightarrow> 'a list" where
  "py_slice xs start stop =
     (let n = int (length xs);
          lo = (if start < 0 then max (start + n) 0 else min start n);
          hi = (if stop < 0 then max (stop + n) 0 else min stop n)
      in take (nat (hi - lo)) (drop (nat lo) xs))"

section \<open>The store and the request\<close>

text \<open>
  Modelled from the spec: the module \<open>models\<close> (the classes \<open>Question\<close> and
  \<open>Category\<close>, their columns, \<open>format\<close>, \<open>insert\<close> and \<open>delete\<close>) is not among
  the sources. A question has an identifier, a question text, an answer text, a category
  reference and a difficulty score; the tests build one from exactly these keys and
  compare the \<open>category\<close> of a formatted question with a category's integer identifier.
\<close>

record Question =
  id_q :: int
  question :: string
  answer :: string
  category :: int
  difficulty :: int

record Category =
  id_c :: int
  type_c :: string

text \<open>Modelled from the spec: \<open>Question.format\<close>, the dict of the five columns.\<close>

definition format :: "Question \<Rightarrow> json" where
  "format q = JObj [(''id'', JInt (id_q q)), (''question'', JStr (question q)),
                    (''answer'', JStr (answer q)), (''category'', JInt (category q)),
                    (''difficulty'', JInt (difficulty q))]"

text \<open>
  The table of questions is the list of its rows in the order in which the database
  yields them to a query without \<open>ORDER BY\<close>. \<open>order_by(Question.id)\<close> sorts it.
\<close>

definition order_by_id :: "Question list \<Rightarrow> Question list" where
  "order_by_id rows = sort_key id_q rows"

text \<open>
  The part of a Flask request the handlers read: the query parameters
  (\<open>request.args\<close>) and the parsed JSON body (\<open>request.get_json()\<close>).
\<close>

record request =
  args :: "(string \<times> string) list"
  get_json :: json

text \<open>
  \<open>request.args.get(key, default, type=...)\<close>: the default when the key is absent or the
  conversion raises \<open>ValueError\<close> on its text, the converted value otherwise. The
  conversion is an argument: \<open>None\<close> stands for its \<open>ValueError\<close>.
\<close>

definition args_get :: "(string \<times> string) list \<Rightarrow> string \<Rightarrow> 'a \<Rightarrow> (string \<Rightarrow> 'a option) \<Rightarrow> 'a" where
  "args_get a k d conv =
     (case map_of a k of
        None \<Rightarrow> d
      | Some s \<Rightarrow> (case conv s of None \<Rightarrow> d | Some v \<Rightarrow> v))"

section \<open>Pagination\<close>

definition QUESTIONS_PER_PAGE :: int where
  "QUESTIONS_PER_PAGE = 10"

text \<open>
  \<open>py_int\<close> is Python's \<open>int\<close> on a string, the conversion that the function hands
  to \<open>request.args.get\<close>. What it accepts beyond plain decimal digits depends on the
  version of Python, so it is an argument and the properties hold for every conversion.
\<close>

definition paginate_data :: "(string \<Rightarrow> int option) \<Rightarrow> request \<Rightarrow> Question list \<Rightarrow> json list" where
  "paginate_data py_int request given_data =
     (let page = args_get (args request) ''page'' 1 py_int;
          start = (page - 1) * QUESTIONS_PER_PAGE;
          stop = start + QUESTIONS_PER_PAGE;
          formatted_data = map format given_data
      in py_slice formatted_data start stop)"

section \<open>Error handlers and responses\<close>

definition not_found :: response where
  "not_found = (404, JObj [(''success'', JBool False), (''error'', JInt 404),
                           (''message'', JStr ''resource not found'')])"

definition unprocessable :: response where
  "unprocessable = (422, JObj [(''success'', JBool False), (''error'', JInt 422),
                               (''message'', JStr ''unprocessable'')])"

definition bad_request :: response where
  "bad_request = (400, JObj [(''success'', JBool False), (''error'', JInt 400),
                             (''message'', JStr ''bad request'')])"

text \<open>The source names the handler of 405 \<open>not_found\<close> a second time.\<close>

definition method_not_allowed :: response where
  "method_not_allowed = (405, JObj [(''success'', JBool False), (''error'', JInt 405),
                                    (''message'', JStr ''method not allowed'')])"

definition server_error :: response where
  "server_error = (500, JObj [(''success'', JBool False), (''error'', JInt 500),
                              (''message'', JStr ''something went wrong'')])"

text \<open>
  Flask hands an exception to the handler registered for it: the four status codes have
  their own, every other exception reaches the handler of \<open>Exception\<close>.
\<close>

fun handle_exception :: "exn \<Rightarrow> response" where
  "handle_exception (HTTPException code) =
     (if code = 404 then not_found
      else if code = 422 then unprocessable
      else if code = 400 then bad_request
      else if code = 405 then method_not_allowed
      else server_error)"
| "handle_exception _ = server_error"

definition jsonify :: "(string \<times> json) list \<Rightarrow> response" where
  "jsonify d = (200, JObj d)"

definition respond :: "exn + (string \<times> json) list \<Rightarrow> response" where
  "respond r = (case r of Inl e \<Rightarrow> handle_exception e | Inr d \<Rightarrow> jsonify d)"

text \<open>\<open>try: ... except: abort(422)\<close>: the bare \<open>except\<close> takes every exception, the one of
  an \<open>abort\<close> inside the block too.\<close>

definition except_abort_422 :: "exn + 'a \<Rightarrow> exn + 'a" where
  "except_abort_422 r = (case r of Inl e \<Rightarrow> Inl (HTTPException 422) | Inr x \<Rightarrow> Inr x)"

section \<open>Listing and deleting\<close>

definition get_paginted_all_questions ::
  "(string \<Rightarrow> int option) \<Rightarrow> request \<Rightarrow> Question list \<Rightarrow> exn + (string \<times> json) list" where
  "get_paginted_all_questions py_int request store =
     (let questions = order_by_id store;
          current_question = paginate_data py_int request questions
      in if length current_question = 0 then Inl (HTTPException 404)
         else Inr [(''success'', JBool True),
                   (''questions'', JList current_question),
                   (''total_questions'', JInt (int (length store)))])"

text \<open>\<open>one_or_none()\<close> of a query result.\<close>

definition one_or_none :: "'a list \<Rightarrow> exn + 'a option" where
  "one_or_none rows =
     (case rows of
        [] \<Rightarrow> Inr None
      | [r] \<Rightarrow> Inr (Some r)
      | _ \<Rightarrow> Inl MultipleResultsFound)"

text \<open>Modelled from the spec: \<open>Question.delete\<close>, which removes the row of that identifier
  and commits.\<close>

definition delete_row :: "Question \<Rightarrow> Question list \<Rightarrow> Question list" where
  "delete_row q store = [r \<leftarrow> store. id_q r \<noteq> id_q q]"

text \<open>The block under \<open>try\<close> of \<open>delete_question\<close>: the store it leaves and its outcome.\<close>

definition delete_question_try ::
  "(string \<Rightarrow> int option) \<Rightarrow> Question list \<Rightarrow> request \<Rightarrow> int
     \<Rightarrow> Question list \<times> (exn + (string \<times> json) list)" where
  "delete_question_try py_int store request question_id =
     (case one_or_none [q \<leftarrow> store. id_q q = question_id] of
        Inl e \<Rightarrow> (store, Inl e)
      | Inr None \<Rightarrow> (store, Inl (HTTPException 404))
      | Inr (Some row) \<Rightarrow>
          (let store' = delete_row row store
           in (store',
               bnd (get_paginted_all_questions py_int request store') (\<lambda>response_data.
                 Inr (dict_update response_data
                        [(''success'', JBool True), (''deleted'', JInt question_id)])))))"

definition delete_question ::
  "(string \<Rightarrow> int option) \<Rightarrow> Question list \<Rightarrow> request \<Rightarrow> int \<Rightarrow> Question list \<times> response" where
  "delete_question py_int store request question_id =
     (case delete_question_try py_int store request question_id of
        (store', r) \<Rightarrow> (store', respond (except_abort_422 r)))"

section \<open>Search\<close>

text \<open>
  \<open>ILIKE\<close> as the database of the tests (PostgreSQL) evaluates it: \<open>%\<close> stands for any
  text, \<open>_\<close> for any one character, a backslash makes the next character stand for
  itself, and letters match without regard to case (ASCII letters here). A pattern
  that ends in a lone backslash is an error in the database; \<open>search_question\<close> closes
  every pattern with \<open>%\<close>, so that case does not arise there, and it matches nothing here.
\<close>

fun like_match :: "string \<Rightarrow> string \<Rightarrow> bool" where
  "like_match [] t = (t = [])"
| "like_match (p # ps) t =
     (if p = CHR ''%'' then
        like_match ps t \<or> (case t of [] \<Rightarrow> False | c # cs \<Rightarrow> like_match (p # ps) cs)
      else if p = CHR 0x5C then
        (case ps of
           [] \<Rightarrow> False
         | e # ps' \<Rightarrow> (case t of [] \<Rightarrow> False | c # cs \<Rightarrow> c = e \<and> like_match ps' cs))
      else if p = CHR ''_'' then (case t of [] \<Rightarrow> False | c # cs \<Rightarrow> like_match ps cs)
      else (case t of [] \<Rightarrow> False | c # cs \<Rightarrow> c = p \<and> like_match ps cs))"

definition lower_char :: "char \<Rightarrow> char" where
  "lower_char c = (let n = (of_char c :: nat) in if 65 \<le> n \<and> n \<le> 90 then char_of (n + 32) else c)"

definition lower :: "string \<Rightarrow> string" where
  "lower s = map lower_char s"

definition ilike :: "string \<Rightarrow> string \<Rightarrow> bool" where
  "ilike txt pattern = like_match (lower pattern) (lower txt)"

text \<open>
  \<open>f'{search}'\<close>: a string is inserted as it is, any other value through \<open>str\<close>, whose
  text no property below depends on and which is therefore an argument.
\<close>

definition fstring :: "(json \<Rightarrow> string) \<Rightarrow> json \<Rightarrow> string" where
  "fstring str v = (case v of JStr s \<Rightarrow> s | _ \<Rightarrow> str v)"

definition search_rows :: "Question list \<Rightarrow> string \<Rightarrow> Question list" where
  "search_rows store pattern = [q \<leftarrow> store. ilike (question q) pattern]"

definition search_question :: "(json \<Rightarrow> string) \<Rightarrow> Question list \<Rightarrow> request \<Rightarrow> response" where
  "search_question str store request =
     respond
       (bnd (dict_get (get_json request) ''search'' JNull) (\<lambda>search.
          let questions = search_rows store (''%'' @ fstring str search @ ''%'');
              formatted_books = map format questions
          in Inr [(''success'', JBool True),
                  (''questions'', JList formatted_books),
                  (''total_questions'', JInt (int (length formatted_books)))]))"

section \<open>Questions of a category\<close>

text \<open>\<open>Category.query.get(category_id)\<close>: the row of that primary key, or \<open>None\<close>.\<close>

definition query_get :: "Category list \<Rightarrow> int \<Rightarrow> Category option" where
  "query_get categories k = find (\<lambda>c. id_c c = k) categories"

definition retrieve_questions_for_category ::
  "(string \<Rightarrow> int option) \<Rightarrow> Category list \<Rightarrow> Question list \<Rightarrow> request \<Rightarrow> int \<Rightarrow> response" where
  "retrieve_questions_for_category py_int categories store request category_id =
     respond
       (let questions = order_by_id [q \<leftarrow> store. category q = category_id];
            current_question = paginate_data py_int request questions
        in if length current_question = 0 then Inl (HTTPException 404)
           else (case query_get categories category_id of
                   None \<Rightarrow> Inl AttributeError
                 | Some c \<Rightarrow>
                     Inr [(''success'', JBool True),
                          (''questions'', JList current_question),
                          (''total_questions'', JInt (int (length store))),
                          (''current_category'', JStr (type_c c))]))"

section \<open>Quiz\<close>

text \<open>
  The keys of a Python dict built from a JSON object, in the order in which the object
  first names them.
\<close>

definition dict_keys :: "(string \<times> json) list \<Rightarrow> string list" where
  "dict_keys kvs = rev (remdups (rev (map fst kvs)))"

text \<open>
  \<open>Question.id.in_(previous_questions)\<close>: the query library iterates over its argument
  and takes each item as a value of the \<open>IN\<close> list. A list gives its elements, a dict
  its keys and a string its characters; a value that cannot be iterated over raises
  \<open>TypeError\<close>.
\<close>

fun in_op :: "json \<Rightarrow> exn + json list" where
  "in_op (JList xs) = Inr xs"
| "in_op (JObj kvs) = Inr (map JStr (dict_keys kvs))"
| "in_op (JStr s) = Inr (map (\<lambda>c. JStr [c]) s)"
| "in_op _ = Inl TypeError"

text \<open>
  A Python value compared with an integer column, as the database of the tests
  (PostgreSQL) receives it: an integer is itself, \<open>None\<close> is \<open>NULL\<close>, a string is
  converted by the integer input conversion of the database (the argument \<open>int4in\<close>),
  which raises on a text it rejects; a boolean, a list or a dict has no comparison with
  an integer. The tests expect the failure for the text \<open>abc\<close>.
\<close>

fun bind_param :: "(string \<Rightarrow> int option) \<Rightarrow> json \<Rightarrow> exn + int option" where
  "bind_param int4in JNull = Inr None"
| "bind_param int4in (JInt n) = Inr (Some n)"
| "bind_param int4in (JStr s) = (case int4in s of None \<Rightarrow> Inl DataError | Some n \<Rightarrow> Inr (Some n))"
| "bind_param int4in (JBool b) = Inl ProgrammingError"
| "bind_param int4in (JList xs) = Inl ProgrammingError"
| "bind_param int4in (JObj kvs) = Inl ProgrammingError"

fun bind_params :: "(string \<Rightarrow> int option) \<Rightarrow> json list \<Rightarrow> exn + int option list" where
  "bind_params int4in [] = Inr []"
| "bind_params int4in (x # xs) =
     bnd (bind_param int4in x) (\<lambda>v. bnd (bind_params int4in xs) (\<lambda>vs. Inr (v # vs)))"

text \<open>\<open>NOT (id IN (...))\<close> keeps a row only where it is true: a \<open>NULL\<close> in the list makes it
  unknown for every identifier that is not in the list.\<close>

definition not_in :: "int \<Rightarrow> int option list \<Rightarrow> bool" where
  "not_in v vs = (Some v \<notin> set vs \<and> None \<notin> set vs)"

text \<open>
  The rows of the query \<open>questions\<close>: the exclusion filter, and the category filter when
  the handler added it. There is no \<open>order_by\<close>: the rows come in the order of the store.
\<close>

definition quiz_rows ::
  "(string \<Rightarrow> int option) \<Rightarrow> Question list \<Rightarrow> json list \<Rightarrow> json option \<Rightarrow> exn + Question list" where
  "quiz_rows int4in store previous_questions category_filter =
     bnd (bind_params int4in previous_questions) (\<lambda>excluded.
       case category_filter of
         None \<Rightarrow> Inr [q \<leftarrow> store. not_in (id_q q) excluded]
       | Some c \<Rightarrow>
           bnd (bind_param int4in c) (\<lambda>k.
             Inr [q \<leftarrow> store. not_in (id_q q) excluded \<and> Some (category q) = k]))"

text \<open>
  \<open>random.randrange(start, stop)\<close>. The state of the generator is reduced to the natural
  number \<open>draw\<close> that it supplies to the call: the result lies in the range from
  \<open>start\<close> up to, not including, \<open>stop\<close>, every value of the range is the result for
  some \<open>draw\<close>, and an empty range raises \<open>ValueError\<close>.
\<close>

definition randrange :: "nat \<Rightarrow> nat \<Rightarrow> nat \<Rightarrow> exn + nat" where
  "randrange draw start stop =
     (if stop \<le> start then Inl ValueError else Inr (start + draw mod (stop - start)))"

text \<open>\<open>questions[rand]\<close> on a query: the row at that offset, \<open>IndexError\<close> when there is
  none.\<close>

definition query_item :: "'a list \<Rightarrow> nat \<Rightarrow> exn + 'a" where
  "query_item rows i = (if i < length rows then Inr (rows ! i) else Inl IndexError)"

text \<open>
  The second half of the block under \<open>try\<close> of \<open>quiz_question\<close>: count the rows,
  draw an index below the count, take the row at that index and format it, or take
  \<open>None\<close> when there is no row.
\<close>

definition quiz_pick :: "Question list \<Rightarrow> nat \<Rightarrow> exn + (string \<times> json) list" where
  "quiz_pick questions draw =
     (let questions_count = length questions in
      bnd (if questions_count \<noteq> 0 then
             bnd (randrange draw 0 questions_count) (\<lambda>rand.
             bnd (query_item questions rand) (\<lambda>row.
             Inr (format row)))
           else Inr JNull) (\<lambda>question.
      Inr [(''success'', JBool True), (''question'', question)]))"

text \<open>The block under \<open>try\<close> of \<open>quiz_question\<close>.\<close>

definition quiz_question_try ::
  "(string \<Rightarrow> int option) \<Rightarrow> Question list \<Rightarrow> request \<Rightarrow> nat \<Rightarrow> exn + (string \<times> json) list" where
  "quiz_question_try int4in store request draw =
     (let request_data = get_json request in
      bnd (dict_get request_data ''previous_questions'' (JList [])) (\<lambda>previous_questions.
      bnd (dict_get request_data ''quiz_category'' (JObj [])) (\<lambda>quiz_category.
      bnd (in_op previous_questions) (\<lambda>excluded.
      bnd (dict_get quiz_category ''id'' JNull) (\<lambda>category_id.
      bnd (quiz_rows int4in store excluded
             (if py_bool category_id then Some category_id else None)) (\<lambda>questions.
      quiz_pick questions draw))))))"

definition quiz_question ::
  "(string \<Rightarrow> int option) \<Rightarrow> Question list \<Rightarrow> request \<Rightarrow> nat \<Rightarrow> response" where
  "quiz_question int4in store request draw =
     respond (except_abort_422 (quiz_question_try int4in store request draw))"

section \<open>Notions of the specification\<close>

text \<open>
  What a quiz request carries: the value under \<open>previous_questions\<close> (the empty list when
  the key is absent) and the value under \<open>id\<close> of \<open>quiz_category\<close> (\<open>None\<close> when either
  key is absent), read as the handler reads them.
\<close>

definition quiz_fields :: "request \<Rightarrow> exn + (json \<times> json)" where
  "quiz_fields request =
     bnd (dict_get (get_json request) ''previous_questions'' (JList [])) (\<lambda>previous_questions.
     bnd (dict_get (get_json request) ''quiz_category'' (JObj [])) (\<lambda>quiz_category.
     bnd (dict_get quiz_category ''id'' JNull) (\<lambda>category_id.
     Inr (previous_questions, category_id))))"

text \<open>A value that has the shape of an identifier: an integer, or a text that the integer
  conversion of the database accepts.\<close>

fun identifier_shaped :: "(string \<Rightarrow> int option) \<Rightarrow> json \<Rightarrow> bool" where
  "identifier_shaped int4in (JInt n) = True"
| "identifier_shaped int4in (JStr s) = (int4in s \<noteq> None)"
| "identifier_shaped int4in _ = False"

text \<open>The identifier that such a value stands for.\<close>

fun id_value :: "(string \<Rightarrow> int option) \<Rightarrow> json \<Rightarrow> int option" where
  "id_value int4in (JInt n) = Some n"
| "id_value int4in (JStr s) = int4in s"
| "id_value int4in _ = None"

text \<open>The excluded identifiers: those that the elements of \<open>previous_questions\<close> stand for.\<close>

definition excluded_ids :: "(string \<Rightarrow> int option) \<Rightarrow> json list \<Rightarrow> int list" where
  "excluded_ids int4in previous_questions = List.map_filter (id_value int4in) previous_questions"

text \<open>The category that is active: the one a truthy \<open>id\<close> stands for; none for a falsy
  \<open>id\<close>, which 0 and an absent \<open>id\<close> are.\<close>

definition active_category :: "(string \<Rightarrow> int option) \<Rightarrow> json \<Rightarrow> int option" where
  "active_category int4in category_id =
     (if py_bool category_id then id_value int4in category_id else None)"

text \<open>
  The eligible set in the words of the specification: all questions minus those whose
  identifier is excluded, restricted to the category when one is active. The questions
  stand in the order of the store.
\<close>

definition eligible_set :: "int list \<Rightarrow> int option \<Rightarrow> Question list \<Rightarrow> Question list" where
  "eligible_set excludedIds categoryId store =
     [q \<leftarrow> store. id_q q \<notin> set excludedIds
                  \<and> (case categoryId of None \<Rightarrow> True | Some c \<Rightarrow> category q = c)]"

text \<open>
  Substring search in the words of the specification and of the handler's docstring:
  \<open>s\<close> occurs in \<open>t\<close> as a run of consecutive characters.
\<close>

fun is_substring :: "string \<Rightarrow> string \<Rightarrow> bool" where
  "is_substring s [] = (s = [])"
| "is_substring s (c # cs) = (take (length s) (c # cs) = s \<or> is_substring s cs)"

text \<open>A search term without a character that \<open>ILIKE\<close> reads as more than itself.\<close>

definition plain :: "string \<Rightarrow> bool" where
  "plain s = list_all (\<lambda>c. c \<noteq> CHR ''%'' \<and> c \<noteq> CHR ''_'' \<and> c \<noteq> CHR 0x5C) s"

section \<open>Sample conversions, rows and requests\<close>

text \<open>
  Two conversions for the examples; the properties hold for every conversion. The first
  stands in for Python's \<open>int\<close>: an optional sign and decimal digits. The second stands
  in for the integer conversion of the database: white space, an optional sign, decimal
  digits, white space, and a value that fits 32 bits.
\<close>

definition digit_val :: "char \<Rightarrow> nat option" where
  "digit_val c = (let n = (of_char c :: nat) in if 48 \<le> n \<and> n \<le> 57 then Some (n - 48) else None)"

fun digits :: "nat \<Rightarrow> string \<Rightarrow> nat option" where
  "digits acc [] = Some acc"
| "digits acc (c # cs) =
     (case digit_val c of None \<Rightarrow> None | Some v \<Rightarrow> digits (acc * 10 + v) cs)"

definition unsigned_int :: "string \<Rightarrow> nat option" where
  "unsigned_int s = (if s = [] then None else digits 0 s)"

definition decimal_int :: "string \<Rightarrow> int option" where
  "decimal_int s =
     (case s of
        [] \<Rightarrow> None
      | c # cs \<Rightarrow>
          if c = CHR ''-'' then map_option (\<lambda>n. - int n) (unsigned_int cs)
          else if c = CHR ''+'' then map_option int (unsigned_int cs)
          else map_option int (unsigned_int (c # cs)))"

definition c_isspace :: "char \<Rightarrow> bool" where
  "c_isspace c = (let n = (of_char c :: nat) in (9 \<le> n \<and> n \<le> 13) \<or> n = 32)"

fun decimal :: "nat \<Rightarrow> string \<Rightarrow> nat option" where
  "decimal acc [] = Some acc"
| "decimal acc (c # cs) =
     (case digit_val c of
        None \<Rightarrow> (if list_all c_isspace (c # cs) then Some acc else None)
      | Some v \<Rightarrow> decimal (acc * 10 + v) cs)"

definition pg_int4in :: "string \<Rightarrow> int option" where
  "pg_int4in s =
     (let t = dropWhile c_isspace s;
          neg = (t \<noteq> [] \<and> hd t = CHR ''-'');
          ds = (if t \<noteq> [] \<and> (hd t = CHR ''-'' \<or> hd t = CHR ''+'') then tl t else t)
      in case ds of
           [] \<Rightarrow> None
         | d # ds' \<Rightarrow>
             (case digit_val d of
                None \<Rightarrow> None
              | Some v \<Rightarrow>
                  (case decimal v ds' of
                     None \<Rightarrow> None
                   | Some n \<Rightarrow>
                       (let k = (if neg then - int n else int n)
                        in if - 2147483648 \<le> k \<and> k \<le> 2147483647 then Some k else None))))"

definition q1 :: Question where
  "q1 = \<lparr>id_q = 1, question = ''What is abc?'', answer = ''x'', category = 1, difficulty = 1\<rparr>"

definition q2 :: Question where
  "q2 = \<lparr>id_q = 2, question = ''Title of the book'', answer = ''y'', category = 2, difficulty = 3\<rparr>"

definition q3 :: Question where
  "q3 = \<lparr>id_q = 3, question = [CHR ''a'', CHR 0x5C, CHR ''b''], answer = ''z'', category = 1,
          difficulty = 2\<rparr>"

text \<open>The question of identifier \<open>i\<close> in a store of numbered questions.\<close>

definition numbered :: "int \<Rightarrow> Question" where
  "numbered i = \<lparr>id_q = i, question = ''Which?'', answer = ''This'', category = 1, difficulty = 1\<rparr>"

definition science :: Category where
  "science = \<lparr>id_c = 1, type_c = ''Science''\<rparr>"

definition page_request :: "string \<Rightarrow> request" where
  "page_request p = \<lparr>args = [(''page'', p)], get_json = JNull\<rparr>"

definition json_request :: "json \<Rightarrow> request" where
  "json_request b = \<lparr>args = [], get_json = b\<rparr>"

definition search_request :: "string \<Rightarrow> request" where
  "search_request s = json_request (JObj [(''search'', JStr s)])"

definition quiz_request :: "json list \<Rightarrow> json \<Rightarrow> request" where
  "quiz_request previous_questions category_id =
     json_request (JObj [(''previous_questions'', JList previous_questions),
                         (''quiz_category'', JObj [(''id'', category_id), (''type'', JStr ''click'')])])"

section \<open>Properties of pagination\<close>

lemma py_slice_nonneg:
  "0 \<le> start \<Longrightarrow> start \<le> stop \<Longrightarrow>
   py_slice xs start stop = take (nat (stop - start)) (drop (nat start) xs)"
  unfolding py_slice_def Let_def
  by (auto simp: min_def)

lemma args_get_page:
  assumes "case map_of (args request) ''page'' of
             None \<Rightarrow> p = 1
           | Some s \<Rightarrow> (case py_int s of None \<Rightarrow> p = 1 | Some n \<Rightarrow> p = n)"
  shows "args_get (args request) ''page'' 1 py_int = p"
  using assms by (auto simp: args_get_def split: option.splits)

lemma paginate_data_take_drop:
  assumes "args_get (args request) ''page'' 1 py_int = p" and "1 \<le> p"
  shows "paginate_data py_int request items
           = take 10 (drop (nat ((p - 1) * 10)) (map format items))"
proof -
  let ?s = "(p - 1) * 10"
  have s: "0 \<le> ?s" using assms(2) by simp
  have "paginate_data py_int request items = py_slice (map format items) ?s (?s + 10)"
    by (simp add: paginate_data_def Let_def QUESTIONS_PER_PAGE_def assms(1))
  also have "\<dots> = take 10 (drop (nat ?s) (map format items))"
    using py_slice_nonneg[OF s, of "?s + 10" "map format items"] by simp
  finally show ?thesis .
qed

lemma decimal_int_2: "decimal_int ''2'' = Some 2"
  by (simp add: decimal_int_def unsigned_int_def digit_val_def)

lemma decimal_int_0: "decimal_int ''0'' = Some 0"
  by (simp add: decimal_int_def unsigned_int_def digit_val_def)

text \<open>
  Claim C4. Let \<open>p\<close> be the page number of the request: the value of its parameter
  \<open>page\<close>, and 1 when the parameter is absent or does not convert. For \<open>p\<close> of at
  least 1, the page is the slice of the formatted items from \<open>(p - 1) * 10\<close> to
  \<open>p * 10\<close> under Python's slice rules, which is the ten items after the first
  \<open>(p - 1) * 10\<close> (none when the start is beyond the list, never an error), and it
  holds at most 10 items.
\<close>

theorem paginate_data_slice:
  assumes "case map_of (args request) ''page'' of
             None \<Rightarrow> p = 1
           | Some s \<Rightarrow> (case py_int s of None \<Rightarrow> p = 1 | Some n \<Rightarrow> p = n)"
      and "1 \<le> p"
  shows "paginate_data py_int request items
           = py_slice (map format items) ((p - 1) * 10) (p * 10)
         \<and> paginate_data py_int request items
           = take 10 (drop (nat ((p - 1) * 10)) (map format items))
         \<and> length (paginate_data py_int request items) \<le> 10"
proof -
  note g = args_get_page[OF assms(1)]
  have e: "(p - 1) * 10 + 10 = p * 10"
    by (simp add: algebra_simps)
  have "paginate_data py_int request items
          = py_slice (map format items) ((p - 1) * 10) (p * 10)"
    using e by (simp add: paginate_data_def Let_def QUESTIONS_PER_PAGE_def g)
  moreover note td = paginate_data_take_drop[OF g assms(2), of items]
  moreover have "length (paginate_data py_int request items) \<le> 10"
    unfolding td by simp
  ultimately show ?thesis by blast
qed

theorem paginate_data_slice_witness:
  "(case map_of (args (page_request ''2'')) ''page'' of
      None \<Rightarrow> (2::int) = 1
    | Some s \<Rightarrow> (case decimal_int s of None \<Rightarrow> (2::int) = 1 | Some n \<Rightarrow> 2 = n))
   \<and> (1::int) \<le> 2
   \<and> paginate_data decimal_int (page_request ''2'') (map numbered [1..12])
       = py_slice (map format (map numbered [1..12])) ((2 - 1) * 10) (2 * 10)
   \<and> paginate_data decimal_int (page_request ''2'') (map numbered [1..12])
       = take 10 (drop (nat ((2 - 1) * 10)) (map format (map numbered [1..12])))
   \<and> length (paginate_data decimal_int (page_request ''2'') (map numbered [1..12])) \<le> 10
   \<and> take 10 (drop (nat ((2 - 1) * 10)) (map format (map numbered [1..12])))
       = [format (numbered 11), format (numbered 12)]"
proof -
  have h: "case map_of (args (page_request ''2'')) ''page'' of
      None \<Rightarrow> (2::int) = 1
    | Some s \<Rightarrow> (case decimal_int s of None \<Rightarrow> (2::int) = 1 | Some n \<Rightarrow> 2 = n)"
    by (simp add: page_request_def decimal_int_2)
  have k: "(1::int) \<le> 2" by simp
  have v: "take 10 (drop (nat ((2 - 1) * 10)) (map format (map numbered [1..12])))
       = [format (numbered 11), format (numbered 12)]"
    by (simp add: upto_rec1)
  show ?thesis
    using h k v paginate_data_slice[OF h k, of "map numbered [1..12]"] by blast
qed

text \<open>
  Claim C5, as the code has it. With \<open>p\<close> the page number of the request as above and
  \<open>p\<close> of at least 1, the page is empty exactly when \<open>(p - 1) * 10\<close> is at least the
  number of items. The claim as written speaks of every page number the operation
  accepts; \<open>page=0\<close> is accepted and its page is empty whatever the items are.
\<close>

theorem paginate_data_empty_iff:
  assumes "case map_of (args request) ''page'' of
             None \<Rightarrow> p = 1
           | Some s \<Rightarrow> (case py_int s of None \<Rightarrow> p = 1 | Some n \<Rightarrow> p = n)"
      and "1 \<le> p"
  shows "(paginate_data py_int request items = [])
           \<longleftrightarrow> int (length items) \<le> (p - 1) * 10"
proof -
  have "0 \<le> (p - 1) * 10" using assms(2) by simp
  then show ?thesis
    by (auto simp: paginate_data_take_drop[OF args_get_page[OF assms(1)] assms(2)])
qed

theorem paginate_data_empty_iff_witness:
  "(case map_of (args (page_request ''2'')) ''page'' of
      None \<Rightarrow> (2::int) = 1
    | Some s \<Rightarrow> (case decimal_int s of None \<Rightarrow> (2::int) = 1 | Some n \<Rightarrow> 2 = n))
   \<and> (1::int) \<le> 2
   \<and> ((paginate_data decimal_int (page_request ''2'') [q1] = [])
        \<longleftrightarrow> int (length [q1]) \<le> (2 - 1) * 10)"
proof -
  have h: "case map_of (args (page_request ''2'')) ''page'' of
      None \<Rightarrow> (2::int) = 1
    | Some s \<Rightarrow> (case decimal_int s of None \<Rightarrow> (2::int) = 1 | Some n \<Rightarrow> 2 = n)"
    by (simp add: page_request_def decimal_int_2)
  have k: "(1::int) \<le> 2" by simp
  show ?thesis using h k paginate_data_empty_iff[OF h k, of "[q1]"] by blast
qed

theorem paginate_data_empty_iff_counterexample:
  "(case map_of (args (page_request ''0'')) ''page'' of
      None \<Rightarrow> (0::int) = 1
    | Some s \<Rightarrow> (case decimal_int s of None \<Rightarrow> (0::int) = 1 | Some n \<Rightarrow> 0 = n))
   \<and> \<not> ((paginate_data decimal_int (page_request ''0'') [q1] = [])
        \<longleftrightarrow> int (length [q1]) \<le> (0 - 1) * 10)"
  by (simp add: paginate_data_def args_get_def page_request_def decimal_int_0
      QUESTIONS_PER_PAGE_def py_slice_def)

section \<open>Properties of deletion\<close>

text \<open>
  Claim C8. Deleting an identifier that no row of the store has leaves the store as it
  is and answers with the Unprocessable envelope, status 422: the \<open>abort(404)\<close> of the
  handler is raised inside its own \<open>try\<close> and the bare \<open>except\<close> turns it into 422. The
  answer is not the NotFound envelope.
\<close>

theorem delete_absent_is_unprocessable:
  assumes "question_id \<notin> id_q ` set store"
  shows "delete_question py_int store request question_id = (store, unprocessable)
         \<and> fst unprocessable = 422 \<and> unprocessable \<noteq> not_found"
proof -
  have "[q \<leftarrow> store. id_q q = question_id] = []"
    using assms by (auto simp: filter_empty_conv)
  then have "delete_question_try py_int store request question_id
               = (store, Inl (HTTPException 404))"
    by (simp add: delete_question_try_def one_or_none_def)
  then show ?thesis
    by (simp add: delete_question_def except_abort_422_def respond_def
        unprocessable_def not_found_def)
qed

theorem delete_absent_is_unprocessable_witness:
  "7 \<notin> id_q ` set [q2, q1]
   \<and> delete_question decimal_int [q2, q1] (json_request JNull) 7 = ([q2, q1], unprocessable)
   \<and> fst unprocessable = 422 \<and> unprocessable \<noteq> not_found"
proof -
  have h: "7 \<notin> id_q ` set [q2, q1]" by (simp add: q1_def q2_def)
  show ?thesis
    using h delete_absent_is_unprocessable[OF h, of decimal_int "json_request JNull"] by blast
qed

section \<open>Properties of the quiz selector\<close>

lemma bind_param_shaped:
  "identifier_shaped int4in v \<Longrightarrow>
   \<exists>n. id_value int4in v = Some n \<and> bind_param int4in v = Inr (Some n)"
  by (cases v) auto

lemma bind_params_shaped:
  "list_all (identifier_shaped int4in) E \<Longrightarrow>
   bind_params int4in E = Inr (map Some (excluded_ids int4in E))"
proof (induction E)
  case Nil
  then show ?case by (simp add: excluded_ids_def map_filter_simps)
next
  case (Cons x xs)
  then obtain n where "id_value int4in x = Some n" "bind_param int4in x = Inr (Some n)"
    using bind_param_shaped[of int4in x] by auto
  with Cons show ?case
    by (simp add: excluded_ids_def map_filter_simps bnd_def)
qed

lemma bind_params_shaped_or_null:
  "list_all (\<lambda>e. e = JNull \<or> identifier_shaped int4in e) E \<Longrightarrow>
   \<exists>vs. bind_params int4in E = Inr vs \<and> Some ` set (excluded_ids int4in E) \<subseteq> set vs"
proof (induction E)
  case Nil
  then show ?case by (simp add: excluded_ids_def map_filter_simps)
next
  case (Cons x xs)
  then obtain vs where vs: "bind_params int4in xs = Inr vs"
    "Some ` set (excluded_ids int4in xs) \<subseteq> set vs" by auto
  show ?case
  proof (cases "x = JNull")
    case True
    with vs show ?thesis
      by (auto simp: excluded_ids_def map_filter_simps bnd_def)
  next
    case False
    with Cons.prems obtain n where
      "id_value int4in x = Some n" "bind_param int4in x = Inr (Some n)"
      using bind_param_shaped[of int4in x] by auto
    with vs show ?thesis
      by (auto simp: excluded_ids_def map_filter_simps bnd_def)
  qed
qed

lemma not_in_ints: "not_in v (map Some E) \<longleftrightarrow> v \<notin> set E"
  by (auto simp: not_in_def)

lemma bind_params_member:
  "bind_params int4in xs = Inr vs \<Longrightarrow> JInt n \<in> set xs \<Longrightarrow> Some n \<in> set vs"
proof (induction xs arbitrary: vs)
  case Nil
  then show ?case by simp
next
  case (Cons x xs)
  then show ?case
    by (auto simp: bnd_def split: sum.splits)
qed

lemma quiz_rows_shaped:
  assumes "list_all (identifier_shaped int4in) E"
      and "\<not> py_bool cid \<or> identifier_shaped int4in cid"
  shows "quiz_rows int4in store E (if py_bool cid then Some cid else None)
         = Inr (eligible_set (excluded_ids int4in E) (active_category int4in cid) store)"
proof (cases "py_bool cid")
  case False
  then show ?thesis
    by (simp add: quiz_rows_def bind_params_shaped[OF assms(1)] bnd_def not_in_ints
        eligible_set_def active_category_def)
next
  case True
  with assms(2) obtain k where "id_value int4in cid = Some k"
    "bind_param int4in cid = Inr (Some k)"
    using bind_param_shaped[of int4in cid] by auto
  with True show ?thesis
    by (simp add: quiz_rows_def bind_params_shaped[OF assms(1)] bnd_def not_in_ints
        eligible_set_def active_category_def)
qed

lemma quiz_rows_within_eligible:
  assumes "list_all (\<lambda>e. e = JNull \<or> identifier_shaped int4in e) E"
      and "\<not> py_bool cid \<or> identifier_shaped int4in cid"
  shows "\<exists>rows. quiz_rows int4in store E (if py_bool cid then Some cid else None) = Inr rows
           \<and> set rows
               \<subseteq> set (eligible_set (excluded_ids int4in E) (active_category int4in cid) store)"
proof -
  from bind_params_shaped_or_null[OF assms(1)] obtain vs where
    vs: "bind_params int4in E = Inr vs" "Some ` set (excluded_ids int4in E) \<subseteq> set vs"
    by auto
  then have n: "\<And>v. not_in v vs \<Longrightarrow> v \<notin> set (excluded_ids int4in E)"
    by (auto simp: not_in_def)
  show ?thesis
  proof (cases "py_bool cid")
    case False
    then show ?thesis
      using n by (auto simp: quiz_rows_def vs(1) bnd_def eligible_set_def active_category_def)
  next
    case True
    with assms(2) obtain k where "id_value int4in cid = Some k"
      "bind_param int4in cid = Inr (Some k)"
      using bind_param_shaped[of int4in cid] by auto
    with True show ?thesis
      using n by (auto simp: quiz_rows_def vs(1) bnd_def eligible_set_def active_category_def)
  qed
qed

lemma quiz_question_try_fields:
  assumes "quiz_fields request = Inr (previous_questions, cid)"
  shows "quiz_question_try int4in store request draw
         = bnd (in_op previous_questions) (\<lambda>excluded.
           bnd (quiz_rows int4in store excluded (if py_bool cid then Some cid else None))
               (\<lambda>questions. quiz_pick questions draw))"
  using assms
  by (auto simp: quiz_fields_def quiz_question_try_def bnd_def Let_def split: sum.splits)

lemma quiz_question_try_shaped:
  assumes "quiz_fields request = Inr (JList E, cid)"
      and "list_all (identifier_shaped int4in) E"
      and "\<not> py_bool cid \<or> identifier_shaped int4in cid"
  shows "quiz_question_try int4in store request draw
         = quiz_pick (eligible_set (excluded_ids int4in E) (active_category int4in cid) store) draw"
  by (simp add: quiz_question_try_fields[OF assms(1)] quiz_rows_shaped[OF assms(2,3)] bnd_def)

lemma randrange_below:
  "0 < n \<Longrightarrow> \<exists>i < n. randrange draw 0 n = Inr i"
  by (simp add: randrange_def)

lemma randrange_every: "i < n \<Longrightarrow> randrange i 0 n = Inr i"
  by (simp add: randrange_def)

lemma quiz_pick_empty:
  "quiz_pick [] draw = Inr [(''success'', JBool True), (''question'', JNull)]"
  by (simp add: quiz_pick_def bnd_def)

lemma quiz_pick_drawn:
  assumes "randrange draw 0 (length questions) = Inr i" and "i < length questions"
  shows "quiz_pick questions draw
         = Inr [(''success'', JBool True), (''question'', format (questions ! i))]"
  using assms by (auto simp: quiz_pick_def query_item_def bnd_def Let_def)

lemma format_id: "format q = format q' \<Longrightarrow> id_q q = id_q q'"
  by (simp add: format_def)

lemma quiz_pick_some:
  assumes "quiz_pick questions draw = Inr [(''success'', JBool True), (''question'', format q)]"
  shows "\<exists>r \<in> set questions. id_q r = id_q q"
proof (cases "questions = []")
  case True
  with assms show ?thesis by (simp add: quiz_pick_empty format_def)
next
  case False
  then obtain i where i: "i < length questions" "randrange draw 0 (length questions) = Inr i"
    using randrange_below[of "length questions" draw] by auto
  from assms quiz_pick_drawn[OF i(2) i(1)] have "format (questions ! i) = format q"
    by simp
  with i(1) show ?thesis using format_id nth_mem by blast
qed

lemma quiz_question_ok:
  "quiz_question int4in store request draw = jsonify d
   \<Longrightarrow> quiz_question_try int4in store request draw = Inr d"
  by (auto simp: quiz_question_def respond_def except_abort_422_def jsonify_def
        unprocessable_def split: sum.splits)

lemma quiz_question_raises:
  "quiz_question_try int4in store request draw = Inl e
   \<Longrightarrow> quiz_question int4in store request draw = unprocessable"
  by (simp add: quiz_question_def except_abort_422_def respond_def)

lemma bind_param_rejects:
  "py_bool cid \<Longrightarrow> \<not> identifier_shaped int4in cid \<Longrightarrow> \<exists>e. bind_param int4in cid = Inl e"
  by (cases cid) auto

lemma quiz_rows_rejects:
  assumes "py_bool cid" and "\<not> identifier_shaped int4in cid"
  shows "\<exists>e. quiz_rows int4in store xs (Some cid) = Inl e"
proof -
  from bind_param_rejects[OF assms] obtain e where "bind_param int4in cid = Inl e" ..
  then show ?thesis
    by (cases "bind_params int4in xs") (simp_all add: quiz_rows_def bnd_def)
qed

text \<open>
  Claim C1. Whatever list \<open>E\<close> the request carries under \<open>previous_questions\<close> and
  whatever it carries as category, a question that the quiz returns has an identifier
  that is not a member of \<open>E\<close>.
\<close>

theorem quiz_never_returns_excluded:
  assumes f: "quiz_fields request = Inr (JList E, cid)"
      and r: "quiz_question int4in store request rand
                = jsonify [(''success'', JBool True), (''question'', format q)]"
  shows "JInt (id_q q) \<notin> set E"
proof
  assume m: "JInt (id_q q) \<in> set E"
  from quiz_question_ok[OF r] quiz_question_try_fields[OF f]
  have t: "bnd (quiz_rows int4in store E (if py_bool cid then Some cid else None))
               (\<lambda>questions. quiz_pick questions rand)
           = Inr [(''success'', JBool True), (''question'', format q)]"
    by (simp add: bnd_def)
  then obtain questions where
    rows: "quiz_rows int4in store E (if py_bool cid then Some cid else None) = Inr questions"
    and pick: "quiz_pick questions rand = Inr [(''success'', JBool True), (''question'', format q)]"
    by (auto simp: bnd_def split: sum.splits)
  from rows obtain excluded where
    b: "bind_params int4in E = Inr excluded"
    and sub: "\<forall>x \<in> set questions. not_in (id_q x) excluded"
    by (auto simp: quiz_rows_def bnd_def split: sum.splits option.splits if_splits)
  from quiz_pick_some[OF pick] obtain x where "x \<in> set questions" "id_q x = id_q q" by blast
  with sub have "not_in (id_q q) excluded" by auto
  moreover from bind_params_member[OF b m] have "Some (id_q q) \<in> set excluded" .
  ultimately show False by (simp add: not_in_def)
qed

theorem quiz_never_returns_excluded_witness:
  "quiz_fields (quiz_request [JInt 2] JNull) = Inr (JList [JInt 2], JNull)
   \<and> quiz_question pg_int4in [q2, q1] (quiz_request [JInt 2] JNull) 0
       = jsonify [(''success'', JBool True), (''question'', format q1)]
   \<and> JInt (id_q q1) \<notin> set [JInt 2]"
proof -
  have f: "quiz_fields (quiz_request [JInt 2] JNull) = Inr (JList [JInt 2], JNull)"
    by (simp add: quiz_fields_def quiz_request_def json_request_def bnd_def)
  have r: "quiz_question pg_int4in [q2, q1] (quiz_request [JInt 2] JNull) 0
             = jsonify [(''success'', JBool True), (''question'', format q1)]"
    by (simp add: quiz_question_def quiz_question_try_def quiz_request_def json_request_def
        quiz_rows_def quiz_pick_def randrange_def query_item_def not_in_def bnd_def
        respond_def except_abort_422_def q1_def q2_def)
  show ?thesis using f r quiz_never_returns_excluded[OF f r] by blast
qed

text \<open>
  Claim C2, as the code has it. Take a request whose \<open>previous_questions\<close> is a list of
  values of the shape of an identifier (integers, or texts that the database reads as
  integers) and whose category \<open>id\<close> is falsy or has that shape, and let the eligible
  set be non-empty. The quiz draws an index below the number of eligible questions and
  returns the question at that index of the eligible questions in the order in which the
  store yields its rows: the query of the quiz has no \<open>order_by\<close>. Every index below
  that number is drawn by some draw. The order is the ascending order of identifiers when
  the store yields its rows in that order. The claim as written has the ascending order
  of identifiers for every store, and has it for every request.
\<close>

theorem quiz_returns_indexed_row:
  assumes f: "quiz_fields request = Inr (JList E, cid)"
      and e: "list_all (identifier_shaped int4in) E"
      and c: "\<not> py_bool cid \<or> identifier_shaped int4in cid"
      and l: "eligible = eligible_set (excluded_ids int4in E) (active_category int4in cid) store"
      and n: "eligible \<noteq> []"
  shows "(\<exists>i < length eligible.
            randrange draw 0 (length eligible) = Inr i
            \<and> quiz_question int4in store request draw
                = jsonify [(''success'', JBool True), (''question'', format (eligible ! i))])
         \<and> (\<forall>i < length eligible.
              quiz_question int4in store request i
                = jsonify [(''success'', JBool True), (''question'', format (eligible ! i))])
         \<and> (sorted (map id_q store) \<longrightarrow> order_by_id eligible = eligible)"
proof -
  have t: "\<And>d. quiz_question_try int4in store request d = quiz_pick eligible d"
    by (simp add: quiz_question_try_shaped[OF f e c] l)
  have q: "\<And>d i. randrange d 0 (length eligible) = Inr i \<Longrightarrow> i < length eligible \<Longrightarrow>
             quiz_question int4in store request d
               = jsonify [(''success'', JBool True), (''question'', format (eligible ! i))]"
    by (simp add: quiz_question_def t quiz_pick_drawn except_abort_422_def respond_def)
  from n obtain i where i: "i < length eligible" "randrange draw 0 (length eligible) = Inr i"
    using randrange_below[of "length eligible" draw] by auto
  have "\<exists>i < length eligible.
            randrange draw 0 (length eligible) = Inr i
            \<and> quiz_question int4in store request draw
                = jsonify [(''success'', JBool True), (''question'', format (eligible ! i))]"
    using i q[OF i(2) i(1)] by blast
  moreover have "\<forall>i < length eligible.
              quiz_question int4in store request i
                = jsonify [(''success'', JBool True), (''question'', format (eligible ! i))]"
    using q randrange_every by blast
  moreover have "sorted (map id_q store) \<longrightarrow> order_by_id eligible = eligible"
    by (simp add: l order_by_id_def eligible_set_def sorted_filter sort_key_id_if_sorted)
  ultimately show ?thesis by blast
qed

theorem quiz_returns_indexed_row_witness:
  "quiz_fields (quiz_request [JStr ''3''] (JInt 0)) = Inr (JList [JStr ''3''], JInt 0)
   \<and> list_all (identifier_shaped pg_int4in) [JStr ''3'']
   \<and> \<not> py_bool (JInt 0)
   \<and> [q1, q2] = eligible_set (excluded_ids pg_int4in [JStr ''3''])
                   (active_category pg_int4in (JInt 0)) [q1, q2, q3]
   \<and> [q1, q2] \<noteq> []
   \<and> sorted (map id_q [q1, q2, q3])
   \<and> randrange 5 0 (length [q1, q2]) = Inr 1
   \<and> quiz_question pg_int4in [q1, q2, q3] (quiz_request [JStr ''3''] (JInt 0)) 5
       = jsonify [(''success'', JBool True), (''question'', format ([q1, q2] ! 1))]
   \<and> quiz_question pg_int4in [q1, q2, q3] (quiz_request [JStr ''3''] (JInt 0)) 0
       = jsonify [(''success'', JBool True), (''question'', format ([q1, q2] ! 0))]
   \<and> order_by_id [q1, q2] = [q1, q2]"
proof -
  have f: "quiz_fields (quiz_request [JStr ''3''] (JInt 0)) = Inr (JList [JStr ''3''], JInt 0)"
    by (simp add: quiz_fields_def quiz_request_def json_request_def bnd_def)
  have i3: "pg_int4in ''3'' = Some 3"
    by (simp add: pg_int4in_def c_isspace_def digit_val_def)
  have e: "list_all (identifier_shaped pg_int4in) [JStr ''3'']"
    by (simp add: i3)
  have b: "\<not> py_bool (JInt 0)" by simp
  then have c: "\<not> py_bool (JInt 0) \<or> identifier_shaped pg_int4in (JInt 0)" by simp
  have l: "[q1, q2] = eligible_set (excluded_ids pg_int4in [JStr ''3''])
                   (active_category pg_int4in (JInt 0)) [q1, q2, q3]"
    by (simp add: eligible_set_def excluded_ids_def map_filter_simps active_category_def i3
        q1_def q2_def q3_def)
  have n: "[q1, q2] \<noteq> []" by simp
  have s: "sorted (map id_q [q1, q2, q3])" by (simp add: q1_def q2_def q3_def)
  have r: "randrange 5 0 (length [q1, q2]) = Inr 1" by code_simp
  note t = quiz_returns_indexed_row[OF f e c l n, of 5]
  from t r have "quiz_question pg_int4in [q1, q2, q3] (quiz_request [JStr ''3''] (JInt 0)) 5
       = jsonify [(''success'', JBool True), (''question'', format ([q1, q2] ! 1))]"
    by auto
  moreover from t have "quiz_question pg_int4in [q1, q2, q3] (quiz_request [JStr ''3''] (JInt 0)) 0
       = jsonify [(''success'', JBool True), (''question'', format ([q1, q2] ! 0))]"
    by simp
  ultimately show ?thesis using f e b l n s r t by blast
qed

theorem quiz_returns_indexed_row_counterexample:
  "quiz_fields (quiz_request [] JNull) = Inr (JList [], JNull)
   \<and> eligible_set (excluded_ids pg_int4in []) (active_category pg_int4in JNull) [q2, q1]
       = [q2, q1]
   \<and> randrange 0 0 (length [q2, q1]) = Inr 0
   \<and> quiz_question pg_int4in [q2, q1] (quiz_request [] JNull) 0
       \<noteq> jsonify [(''success'', JBool True),
                   (''question'', format (order_by_id [q2, q1] ! 0))]
   \<and> quiz_fields (quiz_request [JNull] JNull) = Inr (JList [JNull], JNull)
   \<and> eligible_set (excluded_ids pg_int4in [JNull]) (active_category pg_int4in JNull) [q1]
       = [q1]
   \<and> quiz_question pg_int4in [q1] (quiz_request [JNull] JNull) 0
       = jsonify [(''success'', JBool True), (''question'', JNull)]"
  by (simp add: quiz_fields_def quiz_question_def quiz_question_try_def quiz_request_def
      json_request_def quiz_rows_def quiz_pick_def randrange_def query_item_def not_in_def
      bnd_def respond_def except_abort_422_def jsonify_def eligible_set_def excluded_ids_def
      map_filter_simps active_category_def order_by_id_def format_def q1_def q2_def)

text \<open>
  Claim C3, as the code has it. When the \<open>id\<close> of \<open>quiz_category\<close> is truthy and does not
  have the shape of an identifier (a text that the integer conversion of the database
  rejects, \<open>true\<close>, a non-empty list or object), the quiz answers with the Unprocessable
  envelope, status 422 and message \<open>unprocessable\<close>. The claim as written covers every
  supplied value that is not numeric; the empty string is supplied and not numeric, the
  handler's test \<open>if quiz_category.get('id')\<close> takes it for no category and the quiz
  answers with a question.
\<close>

theorem quiz_rejects_non_numeric_category:
  assumes f: "quiz_fields request = Inr (previous_questions, cid)"
      and t: "py_bool cid"
      and n: "\<not> identifier_shaped int4in cid"
  shows "quiz_question int4in store request rand = unprocessable"
proof (cases "in_op previous_questions")
  case (Inl e)
  then have "quiz_question_try int4in store request rand = Inl e"
    by (simp add: quiz_question_try_fields[OF f] bnd_def)
  then show ?thesis by (rule quiz_question_raises)
next
  case (Inr xs)
  from quiz_rows_rejects[OF t n] obtain e where "quiz_rows int4in store xs (Some cid) = Inl e" ..
  with t Inr have "quiz_question_try int4in store request rand = Inl e"
    by (simp add: quiz_question_try_fields[OF f] bnd_def)
  then show ?thesis by (rule quiz_question_raises)
qed

theorem quiz_rejects_non_numeric_category_witness:
  "quiz_fields (quiz_request [] (JStr ''abc'')) = Inr (JList [], JStr ''abc'')
   \<and> py_bool (JStr ''abc'')
   \<and> \<not> identifier_shaped pg_int4in (JStr ''abc'')
   \<and> quiz_question pg_int4in [q2, q1] (quiz_request [] (JStr ''abc'')) 0 = unprocessable"
proof -
  have f: "quiz_fields (quiz_request [] (JStr ''abc'')) = Inr (JList [], JStr ''abc'')"
    by (simp add: quiz_fields_def quiz_request_def json_request_def bnd_def)
  have t: "py_bool (JStr ''abc'')" by simp
  have n: "\<not> identifier_shaped pg_int4in (JStr ''abc'')"
    by (simp add: pg_int4in_def c_isspace_def digit_val_def)
  show ?thesis
    using f t n quiz_rejects_non_numeric_category[OF f t n, of "[q2, q1]" 0] by blast
qed

theorem quiz_rejects_non_numeric_category_counterexample:
  "quiz_fields (quiz_request [] (JStr '''')) = Inr (JList [], JStr '''')
   \<and> \<not> identifier_shaped pg_int4in (JStr '''')
   \<and> quiz_question pg_int4in [q1] (quiz_request [] (JStr '''')) 0
       = jsonify [(''success'', JBool True), (''question'', format q1)]
   \<and> quiz_question pg_int4in [q1] (quiz_request [] (JStr '''')) 0 \<noteq> unprocessable"
  by (simp add: quiz_fields_def quiz_question_def quiz_question_try_def quiz_request_def
      json_request_def quiz_rows_def quiz_pick_def randrange_def query_item_def not_in_def
      bnd_def respond_def except_abort_422_def jsonify_def unprocessable_def pg_int4in_def)

text \<open>
  Claim C6, as the code has it. Take a request whose \<open>quiz_category\<close> is an object or
  absent and whose \<open>previous_questions\<close> is a list of values of the shape of an
  identifier. When the \<open>id\<close> is 0, absent or falsy in another way, the quiz picks among
  all questions of the store whose identifier is not excluded; the equality with the
  category restricts them only when the \<open>id\<close> is truthy, where it has to have the shape
  of an identifier. The claim as written speaks of every quiz request: a
  \<open>quiz_category\<close> of \<open>null\<close> has no \<open>id\<close> and is answered with the Unprocessable
  envelope, and with \<open>null\<close> among \<open>previous_questions\<close> and the \<open>id\<close> 0 no question
  is returned although none is excluded.
\<close>

theorem quiz_category_zero_or_absent:
  assumes f: "quiz_fields request = Inr (JList E, cid)"
      and e: "list_all (identifier_shaped int4in) E"
  shows "(cid = JInt 0 \<or> cid = JNull \<or> \<not> py_bool cid \<longrightarrow>
            quiz_question int4in store request draw
              = respond (except_abort_422
                  (quiz_pick [q \<leftarrow> store. id_q q \<notin> set (excluded_ids int4in E)] draw)))
         \<and> (py_bool cid \<and> identifier_shaped int4in cid \<longrightarrow>
            quiz_question int4in store request draw
              = respond (except_abort_422
                  (quiz_pick [q \<leftarrow> store. id_q q \<notin> set (excluded_ids int4in E)
                                \<and> Some (category q) = id_value int4in cid] draw)))"
proof (intro conjI impI)
  assume "cid = JInt 0 \<or> cid = JNull \<or> \<not> py_bool cid"
  then have c: "\<not> py_bool cid" by auto
  then have "eligible_set (excluded_ids int4in E) (active_category int4in cid) store
               = [q \<leftarrow> store. id_q q \<notin> set (excluded_ids int4in E)]"
    by (simp add: eligible_set_def active_category_def)
  with c show "quiz_question int4in store request draw
              = respond (except_abort_422
                  (quiz_pick [q \<leftarrow> store. id_q q \<notin> set (excluded_ids int4in E)] draw))"
    by (simp add: quiz_question_def quiz_question_try_shaped[OF f e])
next
  assume c: "py_bool cid \<and> identifier_shaped int4in cid"
  then obtain k where "id_value int4in cid = Some k"
    using bind_param_shaped[of int4in cid] by auto
  with c have "eligible_set (excluded_ids int4in E) (active_category int4in cid) store
               = [q \<leftarrow> store. id_q q \<notin> set (excluded_ids int4in E)
                                \<and> Some (category q) = id_value int4in cid]"
    by (simp add: eligible_set_def active_category_def)
  with c show "quiz_question int4in store request draw
              = respond (except_abort_422
                  (quiz_pick [q \<leftarrow> store. id_q q \<notin> set (excluded_ids int4in E)
                                \<and> Some (category q) = id_value int4in cid] draw))"
    by (simp add: quiz_question_def quiz_question_try_shaped[OF f e])
qed

theorem quiz_category_zero_or_absent_witness:
  "quiz_fields (quiz_request [JInt 2] (JInt 0)) = Inr (JList [JInt 2], JInt 0)
   \<and> list_all (identifier_shaped pg_int4in) [JInt 2]
   \<and> \<not> py_bool (JInt 0)
   \<and> quiz_question pg_int4in [q2, q1, q3] (quiz_request [JInt 2] (JInt 0)) 1
       = respond (except_abort_422
           (quiz_pick [q \<leftarrow> [q2, q1, q3]. id_q q \<notin> set (excluded_ids pg_int4in [JInt 2])] 1))
   \<and> [q \<leftarrow> [q2, q1, q3]. id_q q \<notin> set (excluded_ids pg_int4in [JInt 2])] = [q1, q3]
   \<and> quiz_fields (quiz_request [JInt 2] (JInt 2)) = Inr (JList [JInt 2], JInt 2)
   \<and> py_bool (JInt 2) \<and> identifier_shaped pg_int4in (JInt 2)
   \<and> quiz_question pg_int4in [q2, q1, q3] (quiz_request [JInt 2] (JInt 2)) 1
       = respond (except_abort_422
           (quiz_pick [q \<leftarrow> [q2, q1, q3]. id_q q \<notin> set (excluded_ids pg_int4in [JInt 2])
                         \<and> Some (category q) = id_value pg_int4in (JInt 2)] 1))
   \<and> [q \<leftarrow> [q2, q1, q3]. id_q q \<notin> set (excluded_ids pg_int4in [JInt 2])
                         \<and> Some (category q) = id_value pg_int4in (JInt 2)] = []"
proof -
  have f0: "quiz_fields (quiz_request [JInt 2] (JInt 0)) = Inr (JList [JInt 2], JInt 0)"
    by (simp add: quiz_fields_def quiz_request_def json_request_def bnd_def)
  have f2: "quiz_fields (quiz_request [JInt 2] (JInt 2)) = Inr (JList [JInt 2], JInt 2)"
    by (simp add: quiz_fields_def quiz_request_def json_request_def bnd_def)
  have e: "list_all (identifier_shaped pg_int4in) [JInt 2]" by simp
  have r0: "[q \<leftarrow> [q2, q1, q3]. id_q q \<notin> set (excluded_ids pg_int4in [JInt 2])] = [q1, q3]"
    by (simp add: excluded_ids_def map_filter_simps q1_def q2_def q3_def)
  have r2: "[q \<leftarrow> [q2, q1, q3]. id_q q \<notin> set (excluded_ids pg_int4in [JInt 2])
                         \<and> Some (category q) = id_value pg_int4in (JInt 2)] = []"
    by (simp add: excluded_ids_def map_filter_simps q1_def q2_def q3_def)
  show ?thesis
    using f0 f2 e r0 r2
      quiz_category_zero_or_absent[OF f0 e, of "[q2, q1, q3]" 1]
      quiz_category_zero_or_absent[OF f2 e, of "[q2, q1, q3]" 1]
    by simp
qed

theorem quiz_category_zero_or_absent_counterexample:
  "dict_get (JObj [(''previous_questions'', JList []), (''quiz_category'', JNull)])
     ''quiz_category'' (JObj []) = Inr JNull
   \<and> quiz_question pg_int4in [q1]
       (json_request (JObj [(''previous_questions'', JList []), (''quiz_category'', JNull)])) 0
       = unprocessable
   \<and> quiz_fields (quiz_request [JNull] (JInt 0)) = Inr (JList [JNull], JInt 0)
   \<and> eligible_set (excluded_ids pg_int4in [JNull]) None [q1] = [q1]
   \<and> quiz_question pg_int4in [q1] (quiz_request [JNull] (JInt 0)) 0
       = jsonify [(''success'', JBool True), (''question'', JNull)]"
  by (simp add: quiz_fields_def quiz_question_def quiz_question_try_def quiz_request_def
      json_request_def quiz_rows_def quiz_pick_def randrange_def query_item_def not_in_def
      bnd_def respond_def except_abort_422_def jsonify_def eligible_set_def excluded_ids_def
      map_filter_simps)

text \<open>
  Claim C7, as the code has it. Take a request whose category \<open>id\<close> is falsy or has the
  shape of an identifier, and whose \<open>previous_questions\<close> is a list of values that are
  \<open>null\<close> or have that shape. When no question is eligible the quiz answers with status
  200, success true and a null question, which is not the Unprocessable envelope. The
  claim as written conditions on the category \<open>id\<close> alone: with the text \<open>abc\<close> among
  \<open>previous_questions\<close> the answer is the Unprocessable envelope.
\<close>

theorem quiz_none_when_no_eligible:
  assumes f: "quiz_fields request = Inr (JList E, cid)"
      and e: "list_all (\<lambda>e. e = JNull \<or> identifier_shaped int4in e) E"
      and c: "\<not> py_bool cid \<or> identifier_shaped int4in cid"
      and n: "eligible_set (excluded_ids int4in E) (active_category int4in cid) store = []"
  shows "quiz_question int4in store request draw
           = (200, JObj [(''success'', JBool True), (''question'', JNull)])
         \<and> quiz_question int4in store request draw \<noteq> unprocessable"
proof -
  from quiz_rows_within_eligible[OF e c, of store] n
  have "quiz_rows int4in store E (if py_bool cid then Some cid else None) = Inr []"
    by auto
  then have "quiz_question_try int4in store request draw
               = Inr [(''success'', JBool True), (''question'', JNull)]"
    by (simp add: quiz_question_try_fields[OF f] bnd_def quiz_pick_empty)
  then show ?thesis
    by (simp add: quiz_question_def except_abort_422_def respond_def jsonify_def
        unprocessable_def)
qed

theorem quiz_none_when_no_eligible_witness:
  "quiz_fields (quiz_request [JStr ''1'', JNull] (JStr ''1''))
     = Inr (JList [JStr ''1'', JNull], JStr ''1'')
   \<and> list_all (\<lambda>e. e = JNull \<or> identifier_shaped pg_int4in e) [JStr ''1'', JNull]
   \<and> identifier_shaped pg_int4in (JStr ''1'')
   \<and> eligible_set (excluded_ids pg_int4in [JStr ''1'', JNull])
        (active_category pg_int4in (JStr ''1'')) [q2, q1] = []
   \<and> quiz_question pg_int4in [q2, q1] (quiz_request [JStr ''1'', JNull] (JStr ''1'')) 0
       = (200, JObj [(''success'', JBool True), (''question'', JNull)])
   \<and> quiz_question pg_int4in [q2, q1] (quiz_request [JStr ''1'', JNull] (JStr ''1'')) 0
       \<noteq> unprocessable"
proof -
  have f: "quiz_fields (quiz_request [JStr ''1'', JNull] (JStr ''1''))
             = Inr (JList [JStr ''1'', JNull], JStr ''1'')"
    by (simp add: quiz_fields_def quiz_request_def json_request_def bnd_def)
  have i1: "pg_int4in ''1'' = Some 1"
    by (simp add: pg_int4in_def c_isspace_def digit_val_def)
  have e: "list_all (\<lambda>e. e = JNull \<or> identifier_shaped pg_int4in e) [JStr ''1'', JNull]"
    by (simp add: i1)
  have b: "identifier_shaped pg_int4in (JStr ''1'')"
    by (simp add: i1)
  then have c: "\<not> py_bool (JStr ''1'') \<or> identifier_shaped pg_int4in (JStr ''1'')"
    by simp
  have n: "eligible_set (excluded_ids pg_int4in [JStr ''1'', JNull])
        (active_category pg_int4in (JStr ''1'')) [q2, q1] = []"
    by (simp add: eligible_set_def excluded_ids_def map_filter_simps active_category_def i1
        q1_def q2_def)
  show ?thesis
    using f e b n quiz_none_when_no_eligible[OF f e c n, of 0] by blast
qed

theorem quiz_none_when_no_eligible_counterexample:
  "quiz_fields (quiz_request [JStr ''abc''] (JInt 1)) = Inr (JList [JStr ''abc''], JInt 1)
   \<and> identifier_shaped pg_int4in (JInt 1)
   \<and> eligible_set (excluded_ids pg_int4in [JStr ''abc''])
        (active_category pg_int4in (JInt 1)) [q2] = []
   \<and> quiz_question pg_int4in [q2] (quiz_request [JStr ''abc''] (JInt 1)) 0 = unprocessable
   \<and> unprocessable \<noteq> (200, JObj [(''success'', JBool True), (''question'', JNull)])"
proof -
  have a: "pg_int4in ''abc'' = None"
    by (simp add: pg_int4in_def c_isspace_def digit_val_def)
  show ?thesis
    by (simp add: quiz_fields_def quiz_question_def quiz_question_try_def quiz_request_def
        json_request_def quiz_rows_def bnd_def respond_def except_abort_422_def
        unprocessable_def eligible_set_def excluded_ids_def map_filter_simps
        active_category_def a q2_def)
qed

section \<open>Properties of search and of the questions of a category\<close>

lemma handle_exception_not_ok: "handle_exception e \<noteq> (200, body)"
  by (cases e)
     (simp_all add: not_found_def unprocessable_def bad_request_def method_not_allowed_def
        server_error_def)

lemma like_match_percent:
  "like_match (CHR ''%'' # ps) t
     = (like_match ps t \<or> (case t of [] \<Rightarrow> False | c # cs \<Rightarrow> like_match (CHR ''%'' # ps) cs))"
  by (subst like_match.simps) (simp del: like_match.simps(2))

lemma like_match_literal:
  "p \<noteq> CHR ''%'' \<Longrightarrow> p \<noteq> CHR ''_'' \<Longrightarrow> p \<noteq> CHR 0x5C \<Longrightarrow>
   like_match (p # ps) t = (case t of [] \<Rightarrow> False | c # cs \<Rightarrow> c = p \<and> like_match ps cs)"
  by (subst like_match.simps) (simp del: like_match.simps(2))

lemma like_match_any: "like_match ''%'' t"
  by (induction t) (simp_all add: like_match_percent del: like_match.simps(2))

lemma like_match_prefix:
  "plain s \<Longrightarrow> like_match (s @ ''%'') t \<longleftrightarrow> take (length s) t = s"
proof (induction s arbitrary: t)
  case Nil
  then show ?case using like_match_any by simp
next
  case (Cons a s)
  then have a: "a \<noteq> CHR ''%''" "a \<noteq> CHR ''_''" "a \<noteq> CHR 0x5C" and s: "plain s"
    by (simp_all add: plain_def)
  show ?case
  proof (cases t)
    case Nil
    then show ?thesis by (simp add: like_match_literal[OF a] del: like_match.simps(2))
  next
    case (Cons c cs)
    then show ?thesis
      using Cons.IH[OF s, of cs]
      by (auto simp: like_match_literal[OF a] simp del: like_match.simps(2))
  qed
qed

lemma like_match_substring:
  assumes "plain s"
  shows "like_match (''%'' @ s @ ''%'') t \<longleftrightarrow> is_substring s t"
proof (induction t)
  case Nil
  show ?case
    using like_match_prefix[OF assms, of "[]"]
    by (auto simp: like_match_percent[of _ "[]"] simp del: like_match.simps(2))
next
  case (Cons c cs)
  show ?case
    using like_match_prefix[OF assms, of "c # cs"] Cons.IH
    by (simp add: like_match_percent[of _ "c # cs"] del: like_match.simps(2))
qed

lemma lower_char_idem: "lower_char (lower_char c) = lower_char c"
  by (auto simp: lower_char_def Let_def)

lemma lower_idem: "lower (lower s) = lower s"
  by (simp add: lower_def lower_char_idem)

lemma lower_append: "lower (a @ b) = lower a @ lower b"
  by (simp add: lower_def)

lemma lower_char_special:
  "lower_char c = CHR ''%'' \<longleftrightarrow> c = CHR ''%''"
  "lower_char c = CHR ''_'' \<longleftrightarrow> c = CHR ''_''"
  "lower_char c = CHR 0x5C \<longleftrightarrow> c = CHR 0x5C"
  by (auto simp: lower_char_def Let_def dest: arg_cong[where f = "of_char :: char \<Rightarrow> nat"])

lemma plain_lower: "plain s \<Longrightarrow> plain (lower s)"
  by (induction s) (simp_all add: plain_def lower_def lower_char_special)

text \<open>
  What holds of the search: the case of the letters of the term does not matter, and a
  term without \<open>%\<close>, \<open>_\<close> and backslash finds exactly the questions whose text
  contains it, letters compared without regard to case.
\<close>

lemma search_rows_lower:
  "search_rows store (''%'' @ lower s @ ''%'') = search_rows store (''%'' @ s @ ''%'')"
proof -
  have "lower (''%'' @ lower s @ ''%'') = lower (''%'' @ s @ ''%'')"
    by (simp only: lower_append lower_idem)
  then show ?thesis
    by (simp only: search_rows_def ilike_def)
qed

lemma search_rows_title:
  "search_rows store (''%'' @ ''TITLE'' @ ''%'') = search_rows store (''%'' @ ''title'' @ ''%'')"
proof -
  have "lower ''TITLE'' = ''title''" by code_simp
  then show ?thesis using search_rows_lower[of store "''TITLE''"] by simp
qed

lemma search_rows_plain:
  assumes "plain s"
  shows "set (search_rows store (''%'' @ s @ ''%''))
           = {q \<in> set store. is_substring (lower s) (lower (question q))}"
proof -
  have "lower (''%'' @ s @ ''%'') = ''%'' @ lower s @ ''%''"
    by (simp add: lower_def lower_char_def)
  then show ?thesis
    using like_match_substring[OF plain_lower[OF assms]]
    by (simp add: search_rows_def ilike_def del: like_match.simps(2))
qed

text \<open>
  Claim C9, at the inputs where the code leaves it. The handler puts the search term
  into the \<open>ILIKE\<close> pattern as it is. The term \<open>a_c\<close> finds the question
  \<open>What is abc?\<close>, which does not contain it; the term of one backslash does not find
  the question whose text is \<open>a\<close>, backslash, \<open>b\<close>, which contains it.
\<close>

theorem search_term_is_a_pattern:
  "search_question (\<lambda>v. []) [q1] (search_request ''a_c'')
     = jsonify [(''success'', JBool True), (''questions'', JList [format q1]),
                (''total_questions'', JInt 1)]
   \<and> \<not> is_substring (lower ''a_c'') (lower (question q1))
   \<and> search_question (\<lambda>v. []) [q3] (search_request [CHR 0x5C])
     = jsonify [(''success'', JBool True), (''questions'', JList []),
                (''total_questions'', JInt 0)]
   \<and> is_substring (lower [CHR 0x5C]) (lower (question q3))"
  by (simp add: search_question_def search_request_def json_request_def search_rows_def
      ilike_def lower_def lower_char_def fstring_def bnd_def respond_def jsonify_def
      q1_def q3_def)

text \<open>
  Claim C10. In a successful answer to the questions of a category, \<open>total_questions\<close> is
  the number of all questions of the store, whatever their category; in a successful
  answer to a search, \<open>total_questions\<close> is the number of questions in the answer.
\<close>

theorem category_total_counts_all_questions:
  "(retrieve_questions_for_category py_int categories store request category_id = (200, body)
      \<longrightarrow> dict_get body ''total_questions'' JNull = Inr (JInt (int (length store))))
   \<and> (search_question str store request' = (200, body')
      \<longrightarrow> (\<exists>rows. dict_get body' ''questions'' JNull = Inr (JList rows)
                 \<and> dict_get body' ''total_questions'' JNull = Inr (JInt (int (length rows)))))"
proof (intro conjI impI)
  assume "retrieve_questions_for_category py_int categories store request category_id = (200, body)"
  then show "dict_get body ''total_questions'' JNull = Inr (JInt (int (length store)))"
    by (auto simp: retrieve_questions_for_category_def respond_def jsonify_def Let_def
          not_found_def server_error_def split: if_splits option.splits)
next
  assume "search_question str store request' = (200, body')"
  then show "\<exists>rows. dict_get body' ''questions'' JNull = Inr (JList rows)
                 \<and> dict_get body' ''total_questions'' JNull = Inr (JInt (int (length rows)))"
    by (auto simp: search_question_def respond_def jsonify_def Let_def bnd_def
          handle_exception_not_ok split: sum.splits)
qed

theorem category_total_counts_all_questions_witness:
  "retrieve_questions_for_category decimal_int [science] [q2, q1] (json_request JNull) 1
     = (200, JObj [(''success'', JBool True), (''questions'', JList [format q1]),
                   (''total_questions'', JInt 2), (''current_category'', JStr ''Science'')])
   \<and> dict_get (JObj [(''success'', JBool True), (''questions'', JList [format q1]),
                     (''total_questions'', JInt 2), (''current_category'', JStr ''Science'')])
        ''total_questions'' JNull = Inr (JInt (int (length [q2, q1])))
   \<and> search_question (\<lambda>v. []) [q2, q1] (search_request ''title'')
     = (200, JObj [(''success'', JBool True), (''questions'', JList [format q2]),
                   (''total_questions'', JInt 1)])
   \<and> (\<exists>rows. dict_get (JObj [(''success'', JBool True), (''questions'', JList [format q2]),
                              (''total_questions'', JInt 1)]) ''questions'' JNull
                = Inr (JList rows)
             \<and> dict_get (JObj [(''success'', JBool True), (''questions'', JList [format q2]),
                                (''total_questions'', JInt 1)]) ''total_questions'' JNull
                = Inr (JInt (int (length rows))))"
proof -
  have a: "retrieve_questions_for_category decimal_int [science] [q2, q1] (json_request JNull) 1
     = (200, JObj [(''success'', JBool True), (''questions'', JList [format q1]),
                   (''total_questions'', JInt 2), (''current_category'', JStr ''Science'')])"
    by (simp add: retrieve_questions_for_category_def respond_def jsonify_def order_by_id_def
        paginate_data_def args_get_def json_request_def py_slice_def
        QUESTIONS_PER_PAGE_def query_get_def science_def q1_def q2_def)
  have l: "lower ''%title%'' = ''%title%''"
    "lower (question q1) = ''what is abc?''" "lower (question q2) = ''title of the book''"
    by code_simp+
  have b: "search_question (\<lambda>v. []) [q2, q1] (search_request ''title'')
     = (200, JObj [(''success'', JBool True), (''questions'', JList [format q2]),
                   (''total_questions'', JInt 1)])"
    by (simp add: search_question_def search_request_def json_request_def search_rows_def
        ilike_def l fstring_def bnd_def respond_def jsonify_def)
  show ?thesis
    using a b category_total_counts_all_questions[of decimal_int "[science]" "[q2, q1]" "json_request JNull" 1
        "JObj [(''success'', JBool True), (''questions'', JList [format q1]),
               (''total_questions'', JInt 2), (''current_category'', JStr ''Science'')]"
        "\<lambda>v. []" "search_request ''title''"
        "JObj [(''success'', JBool True), (''questions'', JList [format q2]),
               (''total_questions'', JInt 1)]"]
    by blast
qed

end
